theory Spec2Isabelle
  imports Main "HOL-Library.AList" "HOL-Library.Sublist"
begin

section \<open>Progress Store: data model (data/campaignProgress.ts)\<close>

text \<open>
  The persisted snapshot of one campaign. Optional TypeScript fields (\<open>outcome?\<close>,
  \<open>lastCalledAt?\<close>, \<open>logs?\<close>, ...) are \<open>option\<close>s, \<open>None\<close> standing for an absent
  or \<open>undefined\<close> property (JSON.stringify drops both). Timestamps are milliseconds as
  \<open>int\<close>. The \<open>contacts\<close> object is an association list in key order: a JavaScript
  object lists each key once, \<open>p.contacts[k]\<close> is \<open>map_of\<close>, and an assignment to a new
  key appends it. (JavaScript enumerates integer-like keys first; no statement below
  depends on the enumeration order.)
\<close>

datatype CallOutcome = Answered | No_answer

record CallLogEntry =
  call_at :: int
  call_outcome :: CallOutcome

record SurveyLogEntry =
  survey_at :: int
  survey_answer :: string

record ContactProgress =
  contactId :: string
  outcome :: "CallOutcome option"
  attempts :: int
  lastCalledAt :: "int option"
  logs :: "CallLogEntry list option"
  surveyAnswer :: "string option"
  surveyLogs :: "SurveyLogEntry list option"

record Totals =
  total :: int
  made :: int
  answered :: int
  missed :: int

record CampaignProgress =
  campaignId :: string
  totals :: Totals
  contacts :: "(string \<times> ContactProgress) list"
  completed :: bool

datatype error = NotInitialized

text \<open>AsyncStorage, restricted to progress snapshots: storage key to parsed snapshot.\<close>

type_synonym storage = "string \<Rightarrow> CampaignProgress option"

definition KEY_PREFIX :: string where
  "KEY_PREFIX = ''connects.progress.v1:''"

definition storageKey :: "string \<Rightarrow> string" where
  "storageKey cid = KEY_PREFIX @ cid"

text \<open>The literal \<open>{ contactId: id, attempts: 0, logs: [], surveyLogs: [] }\<close>.\<close>

definition newContact :: "string \<Rightarrow> ContactProgress" where
  "newContact cid =
     \<lparr>contactId = cid, outcome = None, attempts = 0, lastCalledAt = None,
      logs = Some [], surveyAnswer = None, surveyLogs = Some []\<rparr>"

text \<open>\<open>x ?? []\<close>\<close>

definition orEmpty :: "'a list option \<Rightarrow> 'a list" where
  "orEmpty l = (case l of None \<Rightarrow> [] | Some xs \<Rightarrow> xs)"

section \<open>Progress Store: operations\<close>

text \<open>The backfill loop of \<open>loadOrInitProgress\<close> over \<open>contactIds\<close> (lines 66-74).\<close>

fun backfill :: "string list \<Rightarrow> CampaignProgress \<Rightarrow> CampaignProgress" where
  "backfill [] parsed = parsed"
| "backfill (i # ids) parsed =
     (case map_of (contacts parsed) i of
        None \<Rightarrow>
          backfill ids
            (parsed\<lparr>contacts := AList.update i (newContact i) (contacts parsed),
                    totals := (totals parsed)\<lparr>total := total (totals parsed) + 1\<rparr>\<rparr>)
      | Some c \<Rightarrow>
          backfill ids
            (parsed\<lparr>contacts :=
               AList.update i
                 (c\<lparr>logs := Some (orEmpty (logs c)),
                    surveyLogs := Some (orEmpty (surveyLogs c))\<rparr>)
                 (contacts parsed)\<rparr>))"

text \<open>The loop \<open>for (const id of contactIds) contacts[id] = {...}\<close> (lines 79-81).\<close>

fun seedContacts ::
  "string list \<Rightarrow> (string \<times> ContactProgress) list \<Rightarrow> (string \<times> ContactProgress) list" where
  "seedContacts [] cs = cs"
| "seedContacts (i # ids) cs = seedContacts ids (AList.update i (newContact i) cs)"

definition loadOrInitProgress ::
  "string \<Rightarrow> string list \<Rightarrow> storage \<Rightarrow> CampaignProgress \<times> storage" where
  "loadOrInitProgress cid contactIds st =
     (case st (storageKey cid) of
        Some raw \<Rightarrow>
          (let parsed = backfill contactIds raw
           in (parsed, st(storageKey cid \<mapsto> parsed)))
      | None \<Rightarrow>
          (let fresh =
                 \<lparr>campaignId = cid,
                  totals = \<lparr>total = int (length contactIds), made = 0, answered = 0, missed = 0\<rparr>,
                  contacts = seedContacts contactIds [],
                  completed = False\<rparr>
           in (fresh, st(storageKey cid \<mapsto> fresh))))"

text \<open>\<open>saveProgress\<close> writes under the key of the snapshot's own \<open>campaignId\<close> field.\<close>

definition saveProgress :: "CampaignProgress \<Rightarrow> storage \<Rightarrow> storage" where
  "saveProgress p st = st(storageKey (campaignId p) \<mapsto> p)"

text \<open>
  The recount loop shared by \<open>recordOutcome\<close> (lines 124-134) and
  \<open>clearMissedOutcomes\<close> (lines 164-174): one pass over the entries of \<open>contacts\<close> with
  the three counters.
\<close>

fun scanOutcomes ::
  "(string \<times> ContactProgress) list \<Rightarrow> int \<Rightarrow> int \<Rightarrow> int \<Rightarrow> int \<times> int \<times> int" where
  "scanOutcomes [] mk ans miss = (mk, ans, miss)"
| "scanOutcomes ((k, c) # rest) mk ans miss =
     (case outcome c of
        None \<Rightarrow> scanOutcomes rest mk ans miss
      | Some oc \<Rightarrow>
          scanOutcomes rest (mk + 1)
            (if oc = Answered then ans + 1 else ans)
            (if oc = No_answer then miss + 1 else miss))"

text \<open>\<open>now\<close> is the value of \<open>Date.now()\<close> read by the call.\<close>

definition recordOutcome ::
  "int \<Rightarrow> string \<Rightarrow> string \<Rightarrow> CallOutcome \<Rightarrow> storage \<Rightarrow> error + (CampaignProgress \<times> storage)" where
  "recordOutcome now cid contact oc st =
     (case st (storageKey cid) of
        None \<Rightarrow> Inl NotInitialized
      | Some p \<Rightarrow>
          (let c0 = (case map_of (contacts p) contact of
                       Some c \<Rightarrow> c | None \<Rightarrow> newContact contact);
               c = c0\<lparr>attempts := attempts c0 + 1,
                      lastCalledAt := Some now,
                      outcome := Some oc,
                      logs := Some (orEmpty (logs c0) @ [\<lparr>call_at = now, call_outcome = oc\<rparr>]),
                      surveyLogs := Some (orEmpty (surveyLogs c0))\<rparr>;
               cs = AList.update contact c (contacts p);
               (mk, ans, miss) = scanOutcomes cs 0 0 0;
               p' = p\<lparr>contacts := cs,
                      totals := (totals p)\<lparr>made := mk, answered := ans, missed := miss\<rparr>\<rparr>
           in Inr (p', saveProgress p' st)))"

definition getSummary :: "string \<Rightarrow> storage \<Rightarrow> error + Totals" where
  "getSummary cid st =
     (case st (storageKey cid) of None \<Rightarrow> Inl NotInitialized | Some p \<Rightarrow> Inr (totals p))"

text \<open>The first loop of \<open>clearMissedOutcomes\<close> (lines 159-163).\<close>

fun clearMissed :: "(string \<times> ContactProgress) list \<Rightarrow> (string \<times> ContactProgress) list" where
  "clearMissed [] = []"
| "clearMissed ((k, c) # rest) =
     (if outcome c = Some No_answer then (k, c\<lparr>outcome := None\<rparr>) else (k, c)) # clearMissed rest"

definition clearMissedOutcomes :: "string \<Rightarrow> storage \<Rightarrow> error + (CampaignProgress \<times> storage)" where
  "clearMissedOutcomes cid st =
     (case st (storageKey cid) of
        None \<Rightarrow> Inl NotInitialized
      | Some p \<Rightarrow>
          (let cs = clearMissed (contacts p);
               (mk, ans, miss) = scanOutcomes cs 0 0 0;
               p' = p\<lparr>contacts := cs,
                      totals := (totals p)\<lparr>made := mk, answered := ans, missed := miss\<rparr>\<rparr>
           in Inr (p', saveProgress p' st)))"

definition removeProgress :: "string \<Rightarrow> storage \<Rightarrow> storage" where
  "removeProgress cid st = st(storageKey cid := None)"


definition recordSurveyResponse ::
  "int \<Rightarrow> string \<Rightarrow> string \<Rightarrow> string \<Rightarrow> storage \<Rightarrow> error + (CampaignProgress \<times> storage)" where
  "recordSurveyResponse now cid contact answer st =
     (case st (storageKey cid) of
        None \<Rightarrow> Inl NotInitialized
      | Some p \<Rightarrow>
          (let c0 = (case map_of (contacts p) contact of
                       Some c \<Rightarrow> c | None \<Rightarrow> newContact contact);
               c = c0\<lparr>surveyAnswer := Some answer,
                      surveyLogs :=
                        Some (orEmpty (surveyLogs c0) @ [\<lparr>survey_at = now, survey_answer = answer\<rparr>])\<rparr>;
               p' = p\<lparr>contacts := AList.update contact c (contacts p)\<rparr>
           in Inr (p', saveProgress p' st)))"

definition clearSurveyResponse ::
  "string \<Rightarrow> string \<Rightarrow> storage \<Rightarrow> error + (CampaignProgress \<times> storage)" where
  "clearSurveyResponse cid contact st =
     (case st (storageKey cid) of
        None \<Rightarrow> Inl NotInitialized
      | Some p \<Rightarrow>
          (let p' = (case map_of (contacts p) contact of
                       None \<Rightarrow> p
                     | Some c \<Rightarrow>
                         p\<lparr>contacts :=
                             AList.update contact
                               (c\<lparr>surveyAnswer := None,
                                  surveyLogs := Some (orEmpty (surveyLogs c))\<rparr>)
                               (contacts p)\<rparr>)
           in Inr (p', saveProgress p' st)))"

text \<open>A call of the store, and a sequence of calls run in order against one campaign.\<close>

datatype StoreOp =
    LoadOrInit "string list"
  | RecordOutcome int string CallOutcome
  | RecordSurveyResponse int string string
  | ClearMissedOutcomes
  | ClearSurveyResponse string

fun applyOp :: "string \<Rightarrow> StoreOp \<Rightarrow> storage \<Rightarrow> error + (CampaignProgress \<times> storage)" where
  "applyOp cid (LoadOrInit ids) st = Inr (loadOrInitProgress cid ids st)"
| "applyOp cid (RecordOutcome now contact oc) st = recordOutcome now cid contact oc st"
| "applyOp cid (RecordSurveyResponse now contact a) st = recordSurveyResponse now cid contact a st"
| "applyOp cid ClearMissedOutcomes st = clearMissedOutcomes cid st"
| "applyOp cid (ClearSurveyResponse contact) st = clearSurveyResponse cid contact st"

fun runOps :: "string \<Rightarrow> StoreOp list \<Rightarrow> storage \<Rightarrow> error + storage" where
  "runOps cid [] st = Inr st"
| "runOps cid (op # ops) st =
     (case applyOp cid op st of Inl e \<Rightarrow> Inl e | Inr (p, st') \<Rightarrow> runOps cid ops st')"

text \<open>
  \<open>csvField\<close> (lines 257-262), at a string or an absent value: a value containing a quote,
  a comma or a newline is wrapped in quotes with each quote doubled.
\<close>

definition newline :: char where
  "newline = CHR 0x0A"

fun doubleQuotes :: "string \<Rightarrow> string" where
  "doubleQuotes [] = []"
| "doubleQuotes (ch # rest) =
     (if ch = CHR 0x22 then CHR 0x22 # CHR 0x22 # doubleQuotes rest else ch # doubleQuotes rest)"

definition needsQuoting :: "string \<Rightarrow> bool" where
  "needsQuoting s \<longleftrightarrow> CHR 0x22 \<in> set s \<or> CHR '','' \<in> set s \<or> newline \<in> set s"

definition csvField :: "string option \<Rightarrow> string" where
  "csvField v =
     (case v of
        None \<Rightarrow> ''''
      | Some s \<Rightarrow> (if needsQuoting s then [CHR 0x22] @ doubleQuotes s @ [CHR 0x22] else s))"

text \<open>\<open>Array.prototype.join\<close>\<close>

fun joinWith :: "string \<Rightarrow> string list \<Rightarrow> string" where
  "joinWith sep [] = ''''"
| "joinWith sep [x] = x"
| "joinWith sep (x # y # rest) = x @ sep @ joinWith sep (y # rest)"

text \<open>The backwards loop of \<open>lastTimestampForAnswer\<close>, run over the reversed log.\<close>

fun firstWithAnswer :: "SurveyLogEntry list \<Rightarrow> string \<Rightarrow> int option" where
  "firstWithAnswer [] a = None"
| "firstWithAnswer (e # rest) a =
     (if survey_answer e = a then Some (survey_at e) else firstWithAnswer rest a)"

text \<open>
  \<open>lastTimestampForAnswer\<close> of data/campaignProgress.ts (lines 264-271): when no entry
  carries the answer it falls back to the last entry.
\<close>

definition lastTimestampForAnswer :: "ContactProgress \<Rightarrow> string \<Rightarrow> int option" where
  "lastTimestampForAnswer cp answer =
     (case surveyLogs cp of
        None \<Rightarrow> None
      | Some l \<Rightarrow>
          (if l = [] then None
           else (case firstWithAnswer (rev l) answer of
                   Some t \<Rightarrow> Some t
                 | None \<Rightarrow> Some (survey_at (last l)))))"

definition outcomeString :: "CallOutcome \<Rightarrow> string" where
  "outcomeString oc = (case oc of Answered \<Rightarrow> ''answered'' | No_answer \<Rightarrow> ''no_answer'')"

text \<open>
  The CSV exports take \<open>toISO\<close>, the rendering \<open>new Date(t).toISOString()\<close>, as a
  parameter. \<open>if (!cp.surveyAnswer) continue\<close> skips an absent and an empty answer;
  \<open>at ? ... : ''\<close> renders the timestamp 0 as the empty string.
\<close>

fun surveyRows :: "(int \<Rightarrow> string) \<Rightarrow> (string \<times> ContactProgress) list \<Rightarrow> string list" where
  "surveyRows toISO [] = []"
| "surveyRows toISO ((k, cp) # rest) =
     (case surveyAnswer cp of
        None \<Rightarrow> surveyRows toISO rest
      | Some a \<Rightarrow>
          (if a = '''' then surveyRows toISO rest
           else (let at = lastTimestampForAnswer cp a;
                     iso = (case at of
                              None \<Rightarrow> ''''
                            | Some t \<Rightarrow> (if t = 0 then '''' else toISO t))
                 in joinWith '','' [csvField (Some k), csvField (Some a), csvField (Some iso)]
                    # surveyRows toISO rest)))"

definition exportSurveyCSV :: "(int \<Rightarrow> string) \<Rightarrow> string \<Rightarrow> storage \<Rightarrow> string" where
  "exportSurveyCSV toISO cid st =
     (case st (storageKey cid) of
        None \<Rightarrow> ''contactId,answer,timestamp'' @ [newline]
      | Some p \<Rightarrow>
          joinWith [newline]
            ([''contactId,answer,timestamp''] @ surveyRows toISO (contacts p) @ ['''']))"

definition callRow :: "(int \<Rightarrow> string) \<Rightarrow> string \<Rightarrow> CallLogEntry \<Rightarrow> string" where
  "callRow toISO k entry =
     (let iso = (if call_at entry = 0 then '''' else toISO (call_at entry))
      in joinWith '','' [csvField (Some k), csvField (Some (outcomeString (call_outcome entry))),
                        csvField (Some iso)])"

fun callRows :: "(int \<Rightarrow> string) \<Rightarrow> (string \<times> ContactProgress) list \<Rightarrow> string list" where
  "callRows toISO [] = []"
| "callRows toISO ((k, cp) # rest) =
     map (callRow toISO k) (orEmpty (logs cp)) @ callRows toISO rest"

definition exportCallOutcomesCSV :: "(int \<Rightarrow> string) \<Rightarrow> string \<Rightarrow> storage \<Rightarrow> string" where
  "exportCallOutcomesCSV toISO cid st =
     (case st (storageKey cid) of
        None \<Rightarrow> ''contactId,outcome,timestamp'' @ [newline]
      | Some p \<Rightarrow>
          joinWith [newline]
            ([''contactId,outcome,timestamp''] @ callRows toISO (contacts p) @ ['''']))"

section \<open>Queue Navigator (screens/execution.tsx)\<close>






section \<open>Record Filter and Identity Deriver (data/campaignsData.ts)\<close>

text \<open>
  The JavaScript built-ins the code calls are parameters of the model: \<open>parseFloat\<close>
  (\<open>None\<close> is NaN; the numbers \<open>'n\<close> are linearly ordered), \<open>toLowerCase\<close>, \<open>trim\<close>,
  \<open>new Date(t).toISOString()\<close> and \<open>String(v)\<close> on the roster's values \<open>'v\<close>. A roster
  record maps a field name to its value; \<open>None\<close> is a field that is missing, undefined
  or null (the code treats the three alike).
\<close>

record ('n, 'v) JS =
  parseFloat :: "string \<Rightarrow> 'n option"
  toLowerCase :: "string \<Rightarrow> string"
  trim :: "string \<Rightarrow> string"
  toISOString :: "int \<Rightarrow> string"
  toStr :: "'v \<Rightarrow> string"

type_synonym 'v Student = "string \<Rightarrow> 'v option"

datatype Operator = Eq | Contains | Gt | Ge | Lt | Le

record FilterCondition =
  field :: string
  op :: Operator
  value' :: string


text \<open>
  The predicate passed to \<open>filters.every\<close> in \<open>applyFilters\<close> (lines 164-182);
  \<open>cellOf\<close> is the cell text of lines 165-166, the empty string for a missing value.
\<close>

definition cellOf :: "('n, 'v) JS \<Rightarrow> 'v Student \<Rightarrow> string \<Rightarrow> string" where
  "cellOf js row fld = (case row fld of None \<Rightarrow> '''' | Some raw \<Rightarrow> toStr js raw)"

definition conditionMatches ::
  "('n::linorder, 'v) JS \<Rightarrow> 'v Student \<Rightarrow> FilterCondition \<Rightarrow> bool" where
  "conditionMatches js row f =
     (let cell = cellOf js row (field f);
          val = value' f
      in if op f \<in> set [Gt, Ge, Lt, Le] then
           (case parseFloat js cell of
              None \<Rightarrow> False
            | Some a \<Rightarrow>
                (case parseFloat js val of
                   None \<Rightarrow> False
                 | Some b \<Rightarrow>
                     (if op f = Gt then a > b
                      else if op f = Ge then a \<ge> b
                      else if op f = Lt then a < b
                      else if op f = Le then a \<le> b
                      else False)))
         else if op f = Eq then toLowerCase js cell = toLowerCase js val
         else if op f = Contains then sublist (toLowerCase js val) (toLowerCase js cell)
         else False)"

definition applyFilters ::
  "('n::linorder, 'v) JS \<Rightarrow> 'v Student list \<Rightarrow> FilterCondition list \<Rightarrow> 'v Student list" where
  "applyFilters js data filters =
     (if filters = [] then data
      else filter (\<lambda>row. list_all (conditionMatches js row) filters) data)"

text \<open>Decimal rendering of an array index, \<open>String(fallbackIndex)\<close>.\<close>

definition digitChar :: "nat \<Rightarrow> char" where
  "digitChar d = ''0123456789'' ! d"




section \<open>Report Builder: summary report (screens/campaigns.tsx)\<close>










section \<open>Report Builder: cloud rows (utils/buildCloudRows.ts)\<close>






section \<open>Properties stated by the specification\<close>

subsection \<open>Totals\<close>




definition emptyStorage :: storage where
  "emptyStorage = (\<lambda>k. None)"

text \<open>What a run of calls leaves in storage for a campaign: totals and number of contacts.\<close>

definition storedTotals ::
  "string \<Rightarrow> error + storage \<Rightarrow> (int \<times> int \<times> int \<times> int \<times> nat) option" where
  "storedTotals cid r =
     (case r of
        Inl e \<Rightarrow> None
      | Inr st \<Rightarrow>
          (case st (storageKey cid) of
             None \<Rightarrow> None
           | Some p \<Rightarrow>
               Some (total (totals p), made (totals p), answered (totals p), missed (totals p),
                     length (contacts p))))"




subsection \<open>Latest values and logs\<close>









subsection \<open>Queue Navigator\<close>




subsection \<open>Idempotent load\<close>

text \<open>A contact that is present with both of its log arrays.\<close>

definition normalised :: "CampaignProgress \<Rightarrow> string \<Rightarrow> bool" where
  "normalised p i \<longleftrightarrow>
     (case map_of (contacts p) i of
        None \<Rightarrow> False
      | Some c \<Rightarrow> logs c \<noteq> None \<and> surveyLogs c \<noteq> None)"

subsection \<open>An instance of the built-ins, for examples\<close>

text \<open>
  \<open>exampleJS\<close> agrees with JavaScript where the examples use it: \<open>toLowerCase\<close> and
  \<open>trim\<close> on ASCII text without tabs or line breaks, \<open>parseFloat\<close> on strings of decimal
  digits and on strings that start with a letter or are empty (NaN), \<open>toISOString\<close> on
  times within the years 0000 to 9999, and \<open>String\<close> on string values.
\<close>

definition lowerAscii :: "char \<Rightarrow> char" where
  "lowerAscii ch =
     (case map_of (zip ''ABCDEFGHIJKLMNOPQRSTUVWXYZ'' ''abcdefghijklmnopqrstuvwxyz'') ch of
        None \<Rightarrow> ch
      | Some l \<Rightarrow> l)"

definition digitValue :: "char \<Rightarrow> int option" where
  "digitValue ch =
     (let n = (of_char ch :: nat) in if 48 \<le> n \<and> n \<le> 57 then Some (int n - 48) else None)"

fun digitsValue :: "string \<Rightarrow> int \<Rightarrow> int option" where
  "digitsValue [] acc = Some acc"
| "digitsValue (ch # rest) acc =
     (case digitValue ch of None \<Rightarrow> None | Some d \<Rightarrow> digitsValue rest (10 * acc + d))"

definition parseDigits :: "string \<Rightarrow> int option" where
  "parseDigits s = (if s = [] then None else digitsValue s 0)"

definition trimSpaces :: "string \<Rightarrow> string" where
  "trimSpaces s =
     rev (dropWhile (\<lambda>ch. ch = CHR '' '') (rev (dropWhile (\<lambda>ch. ch = CHR '' '') s)))"

definition pad2 :: "nat \<Rightarrow> string" where
  "pad2 n = [digitChar (n div 10 mod 10), digitChar (n mod 10)]"

definition pad3 :: "nat \<Rightarrow> string" where
  "pad3 n = digitChar (n div 100 mod 10) # pad2 n"

definition pad4 :: "nat \<Rightarrow> string" where
  "pad4 n = digitChar (n div 1000 mod 10) # pad3 n"

text \<open>
  The civil date of a day number counted from 0000-03-01, by the day within its
  400-year era (\<open>doe\<close>).
\<close>

definition yearOfEra :: "nat \<Rightarrow> nat" where
  "yearOfEra doe = (doe - doe div 1460 + doe div 36524 - doe div 146096) div 365"

definition dayOfYear :: "nat \<Rightarrow> nat" where
  "dayOfYear doe = doe - (365 * yearOfEra doe + yearOfEra doe div 4 - yearOfEra doe div 100)"

definition monthIndex :: "nat \<Rightarrow> nat" where
  "monthIndex doe = (5 * dayOfYear doe + 2) div 153"

definition civilMonth :: "nat \<Rightarrow> nat" where
  "civilMonth doe = (if monthIndex doe < 10 then monthIndex doe + 3 else monthIndex doe - 9)"

definition civilDay :: "nat \<Rightarrow> nat" where
  "civilDay doe = dayOfYear doe - (153 * monthIndex doe + 2) div 5 + 1"

definition civilYear :: "int \<Rightarrow> nat" where
  "civilYear z =
     nat (int (yearOfEra (nat (z mod 146097))) + (z div 146097) * 400 +
          (if civilMonth (nat (z mod 146097)) \<le> 2 then 1 else 0))"

definition isoDate :: "int \<Rightarrow> string" where
  "isoDate z =
     pad4 (civilYear z) @ ''-'' @ pad2 (civilMonth (nat (z mod 146097))) @ ''-'' @
     pad2 (civilDay (nat (z mod 146097)))"

definition isoTime :: "nat \<Rightarrow> string" where
  "isoTime ms =
     pad2 (ms div 3600000) @ '':'' @ pad2 (ms div 60000 mod 60) @ '':'' @
     pad2 (ms div 1000 mod 60) @ ''.'' @ pad3 (ms mod 1000)"

definition isoUTC :: "int \<Rightarrow> string" where
  "isoUTC t =
     isoDate (t div 86400000 + 719468) @ ''T'' @ isoTime (nat (t mod 86400000)) @ ''Z''"

definition exampleJS :: "(int, string) JS" where
  "exampleJS =
     \<lparr>parseFloat = parseDigits, toLowerCase = map lowerAscii, trim = trimSpaces,
      toISOString = isoUTC, toStr = (\<lambda>s. s)\<rparr>"

subsection \<open>Report timestamps\<close>






text \<open>Example data: a roster of one record, a campaign without filters, stored progress.\<close>

definition student7 :: "string Student" where
  "student7 = [''id'' \<mapsto> ''7'', ''first_name'' \<mapsto> ''Ada'', ''last_name'' \<mapsto> ''Lovelace'']"



definition student9 :: "string Student" where
  "student9 = [''id'' \<mapsto> ''9'', ''first_name'' \<mapsto> ''Alan'', ''age'' \<mapsto> ''41'']"








section \<open>Verification: the contacts object lists each key once\<close>

text \<open>
  Every call keeps the keys of \<open>contacts\<close> distinct, so the association list stays a
  JavaScript object and its entries are the contacts.
\<close>

lemma clearMissed_keys: "map fst (clearMissed cs) = map fst cs"
  by (induction cs rule: clearMissed.induct) auto

lemma seedContacts_distinct:
  "distinct (map fst cs) \<Longrightarrow> distinct (map fst (seedContacts ids cs))"
  by (induction ids arbitrary: cs) (simp_all add: distinct_update)

lemma backfill_distinct:
  "distinct (map fst (contacts p)) \<Longrightarrow> distinct (map fst (contacts (backfill ids p)))"
  by (induction ids arbitrary: p) (auto simp: distinct_update split: option.splits)

lemma applyOp_distinct:
  assumes "\<forall>k q. st k = Some q \<longrightarrow> distinct (map fst (contacts q))"
    and "applyOp cid sop st = Inr (p, st')"
  shows "distinct (map fst (contacts p)) \<and>
         (\<forall>k q. st' k = Some q \<longrightarrow> distinct (map fst (contacts q)))"
proof -
  have "distinct (map fst (contacts p)) \<and> (\<exists>k. st' = st(k \<mapsto> p))"
  proof (cases sop)
    case (LoadOrInit ids)
    then show ?thesis
      using assms
      by (auto simp: loadOrInitProgress_def Let_def seedContacts_distinct backfill_distinct
          split: option.splits)
  next
    case (RecordOutcome now k oc)
    then show ?thesis
      using assms
      by (auto simp: recordOutcome_def Let_def saveProgress_def distinct_update
          split: option.splits prod.splits)
  next
    case (RecordSurveyResponse now k a)
    then show ?thesis
      using assms
      by (auto simp: recordSurveyResponse_def Let_def saveProgress_def distinct_update
          split: option.splits)
  next
    case ClearMissedOutcomes
    then show ?thesis
      using assms
      by (auto simp: clearMissedOutcomes_def Let_def saveProgress_def clearMissed_keys
          split: option.splits prod.splits)
  next
    case (ClearSurveyResponse k)
    then show ?thesis
      using assms
      by (auto simp: clearSurveyResponse_def Let_def saveProgress_def distinct_update
          split: option.splits)
  qed
  then show ?thesis using assms(1) by (auto split: if_splits)
qed

section \<open>Verification: totals\<close>










section \<open>Verification: the size of the contacts map\<close>

text \<open>
  Claim C2. The backfill of \<open>loadOrInitProgress\<close> adds one to \<open>totals.total\<close> for each
  contact it creates; \<open>recordOutcome\<close> and \<open>recordSurveyResponse\<close> create a contact for an
  id that is not in the snapshot and leave \<open>totals.total\<close> alone. After loading the queue
  \<open>["a"]\<close> and recording for the id \<open>"b"\<close>, the snapshot holds two contacts and
  \<open>totals.total\<close> is 1 (the results are total, made, answered, missed and the number of
  contacts).
\<close>

theorem record_for_new_contact_keeps_total:
  "storedTotals ''c1''
     (runOps ''c1'' [LoadOrInit [''a''], RecordOutcome 7 ''b'' Answered] emptyStorage) =
     Some (1, 1, 1, 0, 2) \<and>
   storedTotals ''c1''
     (runOps ''c1'' [LoadOrInit [''a''], RecordSurveyResponse 7 ''b'' ''Yes''] emptyStorage) =
     Some (1, 0, 0, 0, 2) \<and>
   storedTotals ''c1'' (runOps ''c1'' [LoadOrInit [''a''], LoadOrInit [''a'', ''b'']] emptyStorage) =
     Some (2, 0, 0, 0, 2)"
  by (simp add: storedTotals_def emptyStorage_def loadOrInitProgress_def recordOutcome_def
      recordSurveyResponse_def saveProgress_def storageKey_def KEY_PREFIX_def newContact_def
      orEmpty_def Let_def)

section \<open>Verification: latest values and logs\<close>




lemma orEmpty_Some [simp]: "orEmpty (Some xs) = xs"
  by (simp add: orEmpty_def)

















section \<open>Verification: Queue Navigator\<close>







section \<open>Verification: Record Filter\<close>

text \<open>
  Claim C5. Filtering with the empty FilterSet returns the list unchanged; for every
  FilterSet the result keeps, in their order, exactly the records that every condition
  of the FilterSet matches, and so is a subsequence of the input.
\<close>

theorem applyFilters_spec:
  "applyFilters js records [] = records \<and>
   applyFilters js records fs = filter (\<lambda>r. \<forall>f \<in> set fs. conditionMatches js r f) records \<and>
   subseq (applyFilters js records fs) records"
  by (simp add: applyFilters_def list_all_iff)

theorem applyFilters_spec_witness:
  "applyFilters exampleJS [student7, student9]
     [\<lparr>field = ''age'', op = Ge, value' = ''18''\<rparr>,
      \<lparr>field = ''first_name'', op = Contains, value' = ''AL''\<rparr>] =
     [student9] \<and>
   applyFilters exampleJS [student7, student9] [] = [student7, student9] \<and>
   subseq [student9] [student7, student9]"
proof -
  let ?fs = "[\<lparr>field = ''age'', op = Ge, value' = ''18''\<rparr>,
              \<lparr>field = ''first_name'', op = Contains, value' = ''AL''\<rparr>]"
  have m7: "\<not> conditionMatches exampleJS student7 \<lparr>field = ''age'', op = Ge, value' = ''18''\<rparr>"
    by (simp add: conditionMatches_def cellOf_def exampleJS_def student7_def parseDigits_def)
  have m9a: "conditionMatches exampleJS student9 \<lparr>field = ''age'', op = Ge, value' = ''18''\<rparr>"
    by (simp add: conditionMatches_def cellOf_def exampleJS_def student9_def parseDigits_def
        digitValue_def)
  have "map lowerAscii ''Alan'' = ''al'' @ ''an''" "map lowerAscii ''AL'' = ''al''"
    by (simp_all add: lowerAscii_def)
  then have m9b:
    "conditionMatches exampleJS student9 \<lparr>field = ''first_name'', op = Contains, value' = ''AL''\<rparr>"
    by (simp add: conditionMatches_def cellOf_def exampleJS_def student9_def
        del: list.map map_append)
  have "applyFilters exampleJS [student7, student9] ?fs = [student9]"
    using applyFilters_spec [of exampleJS "[student7, student9]" ?fs] m7 m9a m9b by simp
  moreover have "subseq [student9] [student7, student9]"
    using applyFilters_spec [of exampleJS "[student7, student9]" ?fs] calculation by simp
  moreover have "applyFilters exampleJS [student7, student9] [] = [student7, student9]"
    using applyFilters_spec [of exampleJS "[student7, student9]" "[]"] by simp
  ultimately show ?thesis by simp
qed

lemma numeric_no_parse:
  assumes "op f \<in> {Gt, Ge, Lt, Le}"
    and "parseFloat js (cellOf js row (field f)) = None \<or> parseFloat js (value' f) = None"
  shows "\<not> conditionMatches js row f"
  using assms by (auto simp: conditionMatches_def Let_def split: option.splits)

text \<open>
  Claim C6. For a condition with one of the operators \<open>></\<close>, \<open>>=\<close>, \<open><\<close>, \<open><=\<close>: when
  \<open>parseFloat\<close> fails on the record's cell text (the empty string for a missing or null
  value) or on the condition's value, the condition is false for the record, and the
  record is not in the result of any FilterSet that contains the condition.
  \<open>applyFilters\<close> has no failing branch: it returns a list in every case.
\<close>

theorem numeric_parse_failure_excludes:
  assumes "op f \<in> {Gt, Ge, Lt, Le}"
    and "parseFloat js (cellOf js row (field f)) = None \<or> parseFloat js (value' f) = None"
    and "f \<in> set fs"
  shows "\<not> conditionMatches js row f \<and> row \<notin> set (applyFilters js records fs)"
proof -
  have no: "\<not> conditionMatches js row f"
    using assms(1,2) by (rule numeric_no_parse)
  have "fs \<noteq> []" using assms(3) by auto
  then have "row \<notin> set (applyFilters js records fs)"
    using no assms(3) by (auto simp: applyFilters_def list_all_iff)
  with no show ?thesis by simp
qed

theorem numeric_parse_failure_excludes_witness:
  "cellOf exampleJS student7 ''age'' = '''' \<and>
   parseFloat exampleJS '''' = None \<and>
   \<not> conditionMatches exampleJS student7 \<lparr>field = ''age'', op = Gt, value' = ''18''\<rparr> \<and>
   student7 \<notin> set (applyFilters exampleJS [student7, student9]
                      [\<lparr>field = ''age'', op = Gt, value' = ''18''\<rparr>])"
proof -
  have cell: "cellOf exampleJS student7 ''age'' = ''''"
    by (simp add: cellOf_def student7_def)
  have nan: "parseFloat exampleJS '''' = None"
    by (simp add: exampleJS_def parseDigits_def)
  show ?thesis
    using cell nan
      numeric_parse_failure_excludes [of "\<lparr>field = ''age'', op = Gt, value' = ''18''\<rparr>"
        exampleJS student7 "[\<lparr>field = ''age'', op = Gt, value' = ''18''\<rparr>]"
        "[student7, student9]"]
    by simp
qed

section \<open>Verification: idempotent load\<close>

lemma backfill_unfold:
  "backfill (j # ids) p =
     backfill ids
       (case map_of (contacts p) j of
          None \<Rightarrow> p\<lparr>contacts := AList.update j (newContact j) (contacts p),
                    totals := (totals p)\<lparr>total := total (totals p) + 1\<rparr>\<rparr>
        | Some c \<Rightarrow> p\<lparr>contacts := AList.update j
             (c\<lparr>logs := Some (orEmpty (logs c)), surveyLogs := Some (orEmpty (surveyLogs c))\<rparr>)
             (contacts p)\<rparr>)"
  by (simp split: option.splits)

lemma normalised_step:
  assumes "normalised p i"
  shows "normalised
           (case map_of (contacts p) j of
              None \<Rightarrow> p\<lparr>contacts := AList.update j (newContact j) (contacts p),
                        totals := (totals p)\<lparr>total := total (totals p) + 1\<rparr>\<rparr>
            | Some c \<Rightarrow> p\<lparr>contacts := AList.update j
                 (c\<lparr>logs := Some (orEmpty (logs c)), surveyLogs := Some (orEmpty (surveyLogs c))\<rparr>)
                 (contacts p)\<rparr>) i"
  using assms
  by (auto simp: normalised_def update_conv' newContact_def split: option.splits)

lemma backfill_keeps_normalised: "normalised p i \<Longrightarrow> normalised (backfill ids p) i"
proof (induction ids arbitrary: p)
  case Nil
  then show ?case by simp
next
  case (Cons j ids)
  show ?case
    unfolding backfill_unfold
    by (rule Cons.IH) (rule normalised_step [OF Cons.prems])
qed

lemma step_normalises:
  "normalised
     (case map_of (contacts p) j of
        None \<Rightarrow> p\<lparr>contacts := AList.update j (newContact j) (contacts p),
                  totals := (totals p)\<lparr>total := total (totals p) + 1\<rparr>\<rparr>
      | Some c \<Rightarrow> p\<lparr>contacts := AList.update j
           (c\<lparr>logs := Some (orEmpty (logs c)), surveyLogs := Some (orEmpty (surveyLogs c))\<rparr>)
           (contacts p)\<rparr>) j"
  by (auto simp: normalised_def update_conv' newContact_def split: option.splits)

lemma backfill_normalises: "i \<in> set ids \<Longrightarrow> normalised (backfill ids p) i"
proof (induction ids arbitrary: p)
  case Nil
  then show ?case by simp
next
  case (Cons j ids)
  show ?case
  proof (cases "i = j")
    case True
    show ?thesis
      unfolding backfill_unfold True
      by (rule backfill_keeps_normalised) (rule step_normalises)
  next
    case False
    with Cons.prems have "i \<in> set ids" by simp
    then show ?thesis
      unfolding backfill_unfold by (rule Cons.IH)
  qed
qed

lemma backfill_fixed:
  "\<forall>i \<in> set ids. normalised p i \<Longrightarrow> backfill ids p = p"
proof (induction ids)
  case Nil
  show ?case by simp
next
  case (Cons j ids)
  from Cons.prems obtain c where c: "map_of (contacts p) j = Some c" "logs c \<noteq> None"
    "surveyLogs c \<noteq> None"
    by (auto simp: normalised_def split: option.splits)
  then have "c\<lparr>logs := Some (orEmpty (logs c)), surveyLogs := Some (orEmpty (surveyLogs c))\<rparr> = c"
    by (auto simp: orEmpty_def)
  then have "p\<lparr>contacts := AList.update j
                 (c\<lparr>logs := Some (orEmpty (logs c)), surveyLogs := Some (orEmpty (surveyLogs c))\<rparr>)
                 (contacts p)\<rparr> = p"
    using c(1) by (simp add: update_triv)
  then show ?case using c(1) Cons by simp
qed

lemma seed_keeps:
  "map_of cs i = Some (newContact i) \<Longrightarrow> map_of (seedContacts ids cs) i = Some (newContact i)"
  by (induction ids arbitrary: cs) (simp_all add: update_conv')

lemma seed_adds:
  "i \<in> set ids \<Longrightarrow> map_of (seedContacts ids cs) i = Some (newContact i)"
proof (induction ids arbitrary: cs)
  case Nil
  then show ?case by simp
next
  case (Cons j ids)
  show ?case
  proof (cases "i = j")
    case True
    then show ?thesis by (simp add: seed_keeps update_conv')
  next
    case False
    with Cons show ?thesis by simp
  qed
qed

text \<open>
  Claim C7. For every campaign id, queue and storage, a second \<open>loadOrInit\<close> with the same
  queue, run on the storage the first one left, returns the snapshot the first one
  returned (the same totals, the same contacts with the same state) and leaves that
  storage as it is.
\<close>

theorem loadOrInit_idempotent:
  "loadOrInitProgress cid ids (snd (loadOrInitProgress cid ids st)) =
   loadOrInitProgress cid ids st"
proof (cases "st (storageKey cid)")
  case None
  define fresh where "fresh =
     \<lparr>campaignId = cid,
      totals = \<lparr>total = int (length ids), made = 0, answered = 0, missed = 0\<rparr>,
      contacts = seedContacts ids [], completed = False\<rparr>"
  have first: "loadOrInitProgress cid ids st = (fresh, st(storageKey cid \<mapsto> fresh))"
    using None by (simp add: loadOrInitProgress_def fresh_def Let_def)
  have "\<forall>i \<in> set ids. normalised fresh i"
    by (simp add: normalised_def fresh_def seed_adds newContact_def)
  then have "backfill ids fresh = fresh" by (rule backfill_fixed)
  then have "loadOrInitProgress cid ids (st(storageKey cid \<mapsto> fresh)) =
             (fresh, st(storageKey cid \<mapsto> fresh))"
    by (simp add: loadOrInitProgress_def Let_def)
  with first show ?thesis by simp
next
  case (Some raw)
  define p where "p = backfill ids raw"
  have first: "loadOrInitProgress cid ids st = (p, st(storageKey cid \<mapsto> p))"
    using Some by (simp add: loadOrInitProgress_def p_def Let_def)
  have "\<forall>i \<in> set ids. normalised p i"
    by (simp add: p_def backfill_normalises)
  then have "backfill ids p = p" by (rule backfill_fixed)
  then have "loadOrInitProgress cid ids (st(storageKey cid \<mapsto> p)) =
             (p, st(storageKey cid \<mapsto> p))"
    by (simp add: loadOrInitProgress_def Let_def)
  with first show ?thesis by simp
qed

section \<open>Verification: report timestamps\<close>

















section \<open>Verification: exports without a snapshot\<close>

text \<open>
  Claim C10. For a campaign with no stored snapshot, \<open>exportSurveyCSV\<close> returns the header
  line \<open>contactId,answer,timestamp\<close> followed by a newline and \<open>exportCallOutcomesCSV\<close>
  returns \<open>contactId,outcome,timestamp\<close> followed by a newline, whereas \<open>recordOutcome\<close>,
  \<open>recordSurveyResponse\<close>, \<open>clearMissedOutcomes\<close>, \<open>clearSurveyResponse\<close> and \<open>getSummary\<close>
  fail with NotInitialized.
\<close>

theorem exports_without_snapshot:
  assumes "st (storageKey cid) = None"
  shows "exportSurveyCSV toISO cid st = ''contactId,answer,timestamp'' @ [newline] \<and>
         exportCallOutcomesCSV toISO cid st = ''contactId,outcome,timestamp'' @ [newline] \<and>
         recordOutcome now cid contact oc st = Inl NotInitialized \<and>
         recordSurveyResponse now cid contact a st = Inl NotInitialized \<and>
         clearMissedOutcomes cid st = Inl NotInitialized \<and>
         clearSurveyResponse cid contact st = Inl NotInitialized \<and>
         getSummary cid st = Inl NotInitialized"
  using assms
  by (simp add: exportSurveyCSV_def exportCallOutcomesCSV_def recordOutcome_def
      recordSurveyResponse_def clearMissedOutcomes_def clearSurveyResponse_def getSummary_def)

theorem exports_without_snapshot_witness:
  "emptyStorage (storageKey ''c1'') = None \<and>
   exportSurveyCSV isoUTC ''c1'' emptyStorage = ''contactId,answer,timestamp'' @ [CHR 0x0A] \<and>
   exportCallOutcomesCSV isoUTC ''c1'' emptyStorage = ''contactId,outcome,timestamp'' @ [CHR 0x0A] \<and>
   recordOutcome 7 ''c1'' ''a'' Answered emptyStorage = Inl NotInitialized \<and>
   getSummary ''c1'' emptyStorage = Inl NotInitialized"
proof -
  have none: "emptyStorage (storageKey ''c1'') = None"
    by (simp add: emptyStorage_def)
  show ?thesis
    using none
      exports_without_snapshot [of emptyStorage "''c1''" isoUTC 7 "''a''" Answered "''Yes''"]
    by (simp add: newline_def)
qed


end
